theory Spec2Isabelle
  imports Complex_Main "HOL-Library.Char_ord" "HOL-Library.List_Lexorder"
begin

section \<open>Values, records and exceptions\<close>

text \<open>
  The script \<^verbatim>\<open>uav_failure_detection_exercise.py\<close> handles two kinds of Python
  values inside a record dict: floats (the timestamp and every payload field) and
  strings (the value stored under the key \<^verbatim>\<open>field\<close>). Python floats are modelled by
  the reals: the rounding of \<^verbatim>\<open>int(ts)/1000000.\<close> is not part of the model, only its
  mathematical value. A record dict is an association list in insertion order, which is
  the order \<^verbatim>\<open>list(x.values())\<close> enumerates; all dicts the script builds have
  distinct keys, so \<open>map_of\<close> is the lookup.
\<close>

datatype pyval = Flt real | Str string

type_synonym event = "(string \<times> pyval) list"

text \<open>
  \<open>KeyError\<close>, \<open>IndexError\<close> and \<open>TypeError\<close> are the Python exceptions the
  statements of the script can raise. \<open>MalformedEventError\<close> (kind, timestamp) and
  \<open>ConfigError\<close> are the error classes the specification names; no definition below
  raises them.
\<close>

datatype exn =
    KeyError string
  | IndexError
  | TypeError
  | MalformedEventError string real
  | ConfigError

text \<open>
  What reaches the terminal and the plot window: a \<^verbatim>\<open>print\<close> of values, the
  \<^verbatim>\<open>print ('Keys', data_keys)\<close> of a list of column names, and a call of
  \<^verbatim>\<open>plot_result\<close> with its six arguments.
\<close>

datatype out_item =
    Print "pyval list"
  | Print_keys "string list"
  | Plot_result real real "pyval list" "pyval list" "pyval list" "pyval list"

text \<open>
  The module-level variables of lines 71 to 76, and everything emitted so far.
\<close>

record world =
  start_seconds :: real
  end_seconds :: real
  pressure_time :: "pyval list"
  pressure_log :: "pyval list"
  kill_sw_time :: "pyval list"
  kill_sw_log :: "pyval list"
  emitted :: "out_item list"

definition module_init :: world where
  "module_init = \<lparr> start_seconds = 100, end_seconds = 900,
     pressure_time = [], pressure_log = [], kill_sw_time = [], kill_sw_log = [],
     emitted = [] \<rparr>"

text \<open>
  A statement either returns a value or raises; in both cases the variables keep what
  was written to them before.
\<close>

type_synonym 'a prog = "world \<Rightarrow> (exn + 'a) \<times> world"

definition pret :: "'a \<Rightarrow> 'a prog" where
  "pret a w = (Inr a, w)"

definition lift :: "exn + 'a \<Rightarrow> 'a prog" where
  "lift r w = (r, w)"

definition pbind :: "'a prog \<Rightarrow> ('a \<Rightarrow> 'b prog) \<Rightarrow> 'b prog" where
  "pbind m f w = (case m w of (Inl x, w') \<Rightarrow> (Inl x, w') | (Inr a, w') \<Rightarrow> f a w')"

definition ebind :: "exn + 'a \<Rightarrow> ('a \<Rightarrow> exn + 'b) \<Rightarrow> exn + 'b" where
  "ebind r f = (case r of Inl x \<Rightarrow> Inl x | Inr a \<Rightarrow> f a)"

section \<open>Expressions\<close>

text \<open>\<^verbatim>\<open>new_data[k]\<close>: a missing key raises \<open>KeyError k\<close>.\<close>

definition subscript :: "event \<Rightarrow> string \<Rightarrow> exn + pyval" where
  "subscript e k = (case map_of e k of None \<Rightarrow> Inl (KeyError k) | Some v \<Rightarrow> Inr v)"

text \<open>
  \<^verbatim>\<open>v > r\<close> and \<^verbatim>\<open>v < r\<close> for a number \<open>r\<close>: Python 3 refuses to order a string
  against a number.
\<close>

fun py_gt :: "pyval \<Rightarrow> real \<Rightarrow> exn + bool" where
  "py_gt (Flt x) r = Inr (x > r)"
| "py_gt (Str s) r = Inl TypeError"

fun py_lt :: "pyval \<Rightarrow> real \<Rightarrow> exn + bool" where
  "py_lt (Flt x) r = Inr (x < r)"
| "py_lt (Str s) r = Inl TypeError"

text \<open>
  The arguments of a \<^verbatim>\<open>print\<close> call are evaluated left to right before anything is
  written; an argument is a subscript of the record or a string literal.
\<close>

datatype arg = Sub string | Lit string

fun eval_args :: "event \<Rightarrow> arg list \<Rightarrow> exn + pyval list" where
  "eval_args e [] = Inr []"
| "eval_args e (Sub k # as) =
     ebind (subscript e k) (\<lambda>v. ebind (eval_args e as) (\<lambda>vs. Inr (v # vs)))"
| "eval_args e (Lit s # as) = ebind (eval_args e as) (\<lambda>vs. Inr (Str s # vs))"

definition print_line :: "pyval list \<Rightarrow> unit prog" where
  "print_line vs w = (Inr (), w\<lparr>emitted := emitted w @ [Print vs]\<rparr>)"

definition print_keys :: "string list \<Rightarrow> unit prog" where
  "print_keys ks w = (Inr (), w\<lparr>emitted := emitted w @ [Print_keys ks]\<rparr>)"

section \<open>The algorithm section (lines 71 to 103)\<close>

text \<open>
  \<^verbatim>\<open>new_data['timestamp'] > start_seconds and new_data['timestamp'] < end_seconds\<close>:
  the second comparison is evaluated only when the first one is true.
\<close>

definition in_window :: "world \<Rightarrow> event \<Rightarrow> exn + bool" where
  "in_window w new_data =
     ebind (subscript new_data ''timestamp'') (\<lambda>t.
     ebind (py_gt t (start_seconds w)) (\<lambda>above.
       if above then ebind (subscript new_data ''timestamp'') (\<lambda>t'. py_lt t' (end_seconds w))
       else Inr False))"

definition append_pressure_time :: "pyval \<Rightarrow> unit prog" where
  "append_pressure_time v w = (Inr (), w\<lparr>pressure_time := pressure_time w @ [v]\<rparr>)"

definition append_pressure_log :: "pyval \<Rightarrow> unit prog" where
  "append_pressure_log v w = (Inr (), w\<lparr>pressure_log := pressure_log w @ [v]\<rparr>)"

definition append_kill_sw_time :: "pyval \<Rightarrow> unit prog" where
  "append_kill_sw_time v w = (Inr (), w\<lparr>kill_sw_time := kill_sw_time w @ [v]\<rparr>)"

definition append_kill_sw_log :: "pyval \<Rightarrow> unit prog" where
  "append_kill_sw_log v w = (Inr (), w\<lparr>kill_sw_log := kill_sw_log w @ [v]\<rparr>)"

text \<open>Lines 86 and 87.\<close>

definition imu_block :: "event \<Rightarrow> unit prog" where
  "imu_block new_data =
     pbind (lift (subscript new_data ''field'')) (\<lambda>f.
       if f = Str ''sensor_combined'' then
         pbind (lift (eval_args new_data
                  [Sub ''timestamp'', Lit ''imu'', Sub ''gyro_rad_x'', Sub ''gyro_rad_y'',
                   Sub ''gyro_rad_z'', Sub ''acc_x'', Sub ''acc_y'', Sub ''acc_z'']))
               print_line
       else pret ())"

text \<open>Lines 90 to 93.\<close>

definition air_block :: "event \<Rightarrow> unit prog" where
  "air_block new_data =
     pbind (lift (subscript new_data ''field'')) (\<lambda>f.
       if f = Str ''vehicle_air_data'' then
         pbind (pbind (lift (eval_args new_data
                  [Sub ''timestamp'', Lit ''pressure'', Sub ''baro_pressure_pa'']))
               print_line) (\<lambda>_.
         pbind (pbind (lift (subscript new_data ''timestamp'')) append_pressure_time) (\<lambda>_.
         pbind (lift (subscript new_data ''baro_pressure_pa'')) append_pressure_log))
       else pret ())"

text \<open>Lines 96 to 99.\<close>

definition kill_block :: "event \<Rightarrow> unit prog" where
  "kill_block new_data =
     pbind (lift (subscript new_data ''field'')) (\<lambda>f.
       if f = Str ''manual_control_setpoint'' then
         pbind (pbind (lift (eval_args new_data
                  [Sub ''timestamp'', Lit ''kill switch'', Sub ''aux1'']))
               print_line) (\<lambda>_.
         pbind (pbind (lift (subscript new_data ''timestamp'')) append_kill_sw_time) (\<lambda>_.
         pbind (lift (subscript new_data ''aux1'')) append_kill_sw_log))
       else pret ())"

definition algorithm_init :: "unit prog" where
  "algorithm_init = print_line [Str ''Algorithm init'']"

definition algorithm_update :: "event \<Rightarrow> unit prog" where
  "algorithm_update new_data =
     pbind (\<lambda>w. (in_window w new_data, w)) (\<lambda>inside.
       if inside then
         pbind (imu_block new_data) (\<lambda>_.
         pbind (air_block new_data) (\<lambda>_.
         kill_block new_data))
       else pret ())"

text \<open>
  \<^verbatim>\<open>plot_result\<close> hands its arguments to matplotlib, which is outside the repository:
  the call is recorded with the arguments it was given.
\<close>

definition plot_result ::
  "real \<Rightarrow> real \<Rightarrow> pyval list \<Rightarrow> pyval list \<Rightarrow> pyval list \<Rightarrow> pyval list \<Rightarrow> unit prog" where
  "plot_result start_s end_s p_time p_log k_time k_log w =
     (Inr (), w\<lparr>emitted := emitted w @ [Plot_result start_s end_s p_time p_log k_time k_log]\<rparr>)"

definition algorithm_done :: "unit prog" where
  "algorithm_done =
     pbind (print_line [Str ''Algorithm done'']) (\<lambda>_ w.
       plot_result (start_seconds w) (end_seconds w) (pressure_time w) (pressure_log w)
         (kill_sw_time w) (kill_sw_log w) w)"

section \<open>Loading and merging (lines 107 to 147)\<close>

text \<open>
  One element of \<^verbatim>\<open>ulog.data_list\<close>, as the decoder pyulog delivers it: the message
  name, the names of its columns, the column \<^verbatim>\<open>data.data['timestamp']\<close> as the
  integers \<^verbatim>\<open>int(ts)\<close> reads from its entries (a count of microseconds; the script
  does not look at its sign), and the other columns of \<^verbatim>\<open>data.data\<close> by name.
\<close>

record ulog_data =
  name :: string
  field_data :: "string list"
  timestamp :: "int list"
  data :: "string \<rightharpoonup> real list"

text \<open>\<^verbatim>\<open>data.data[k]\<close> for a column other than the timestamp.\<close>

definition column :: "ulog_data \<Rightarrow> string \<Rightarrow> exn + real list" where
  "column x k = (case data x k of None \<Rightarrow> Inl (KeyError k) | Some c \<Rightarrow> Inr c)"

text \<open>\<^verbatim>\<open>int(ts)/1000000.\<close>\<close>

definition seconds :: "int \<Rightarrow> real" where
  "seconds ts = real_of_int ts / 1000000"

text \<open>The dict literals of lines 127, 135 and 143, keys in the order written.\<close>

definition sensor_record ::
  "string \<Rightarrow> int \<times> real \<times> real \<times> real \<times> real \<times> real \<times> real \<Rightarrow> event" where
  "sensor_record nm = (\<lambda>(ts, g_x, g_y, g_z, acc_x, acc_y, acc_z).
     [(''timestamp'', Flt (seconds ts)), (''field'', Str nm),
      (''gyro_rad_x'', Flt g_x), (''gyro_rad_y'', Flt g_y), (''gyro_rad_z'', Flt g_z),
      (''acc_x'', Flt acc_x), (''acc_y'', Flt acc_y), (''acc_z'', Flt acc_z)])"

definition air_record :: "string \<Rightarrow> int \<times> real \<Rightarrow> event" where
  "air_record nm = (\<lambda>(ts, pres).
     [(''timestamp'', Flt (seconds ts)), (''field'', Str nm), (''baro_pressure_pa'', Flt pres)])"

definition setpoint_record :: "string \<Rightarrow> int \<times> real \<Rightarrow> event" where
  "setpoint_record nm = (\<lambda>(ts, a1).
     [(''timestamp'', Flt (seconds ts)), (''field'', Str nm), (''aux1'', Flt a1)])"

text \<open>
  The three \<^verbatim>\<open>if data.name == ...\<close> blocks. Each prints the column names, reads its
  columns (a missing one raises \<open>KeyError\<close>) and appends one dict per row of the
  \<^verbatim>\<open>zip\<close>, which stops at the shortest column.
\<close>

definition sensor_block :: "ulog_data \<Rightarrow> event list \<Rightarrow> event list prog" where
  "sensor_block x d =
     pbind (print_keys (field_data x)) (\<lambda>_.
     pbind (lift (column x ''gyro_rad[0]'')) (\<lambda>gyro_rad_x.
     pbind (lift (column x ''gyro_rad[1]'')) (\<lambda>gyro_rad_y.
     pbind (lift (column x ''gyro_rad[2]'')) (\<lambda>gyro_rad_z.
     pbind (lift (column x ''accelerometer_m_s2[0]'')) (\<lambda>accelerometer_x.
     pbind (lift (column x ''accelerometer_m_s2[1]'')) (\<lambda>accelerometer_y.
     pbind (lift (column x ''accelerometer_m_s2[2]'')) (\<lambda>accelerometer_z.
       pret (d @ map (sensor_record (name x))
         (zip (timestamp x) (zip gyro_rad_x (zip gyro_rad_y (zip gyro_rad_z
           (zip accelerometer_x (zip accelerometer_y accelerometer_z))))))))))))))"

definition air_data_block :: "ulog_data \<Rightarrow> event list \<Rightarrow> event list prog" where
  "air_data_block x d =
     pbind (print_keys (field_data x)) (\<lambda>_.
     pbind (lift (column x ''baro_pressure_pa'')) (\<lambda>pressures.
       pret (d @ map (air_record (name x)) (zip (timestamp x) pressures))))"

definition setpoint_block :: "ulog_data \<Rightarrow> event list \<Rightarrow> event list prog" where
  "setpoint_block x d =
     pbind (print_keys (field_data x)) (\<lambda>_.
     pbind (lift (column x ''aux1'')) (\<lambda>aux1.
       pret (d @ map (setpoint_record (name x)) (zip (timestamp x) aux1))))"

text \<open>The body of the loop over \<^verbatim>\<open>ulog.data_list\<close>, and the loop.\<close>

definition load_one :: "ulog_data \<Rightarrow> event list \<Rightarrow> event list prog" where
  "load_one x d =
     pbind (if name x = ''sensor_combined'' then sensor_block x d else pret d) (\<lambda>d1.
     pbind (if name x = ''vehicle_air_data'' then air_data_block x d1 else pret d1) (\<lambda>d2.
       if name x = ''manual_control_setpoint'' then setpoint_block x d2 else pret d2))"

fun load_all :: "ulog_data list \<Rightarrow> event list \<Rightarrow> event list prog" where
  "load_all [] d = pret d"
| "load_all (x # xs) d = pbind (load_one x d) (load_all xs)"

text \<open>
  \<^verbatim>\<open>list(x.values())[0]\<close>: the value inserted first; an empty dict has none.
\<close>

fun first_value :: "event \<Rightarrow> exn + pyval" where
  "first_value [] = Inl IndexError"
| "first_value ((k, v) # kvs) = Inr v"

fun first_values :: "event list \<Rightarrow> exn + pyval list" where
  "first_values [] = Inr []"
| "first_values (x # xs) =
     ebind (first_value x) (\<lambda>v. ebind (first_values xs) (\<lambda>vs. Inr (v # vs)))"

fun is_Flt :: "pyval \<Rightarrow> bool" where
  "is_Flt (Flt r) = True"
| "is_Flt (Str s) = False"

fun is_Str :: "pyval \<Rightarrow> bool" where
  "is_Str (Flt r) = False"
| "is_Str (Str s) = True"

fun the_Flt :: "pyval \<Rightarrow> real" where
  "the_Flt (Flt r) = r"
| "the_Flt (Str s) = 0"

fun the_Str :: "pyval \<Rightarrow> string" where
  "the_Str (Flt r) = []"
| "the_Str (Str s) = s"

definition first_key :: "event \<Rightarrow> pyval" where
  "first_key x = (case x of [] \<Rightarrow> Str [] | (k, v) # kvs \<Rightarrow> v)"

text \<open>
  \<^verbatim>\<open>sorted(d, key=lambda x: list(x.values())[0])\<close>. Python computes every key first,
  then sorts; the sort is stable and orders floats by \<open>\<le>\<close> and strings
  lexicographically, and a comparison of a float with a string raises \<open>TypeError\<close>
  (any sort of two or more keys of both kinds has to make one). The stable insertion
  sort \<open>sort_key\<close> of the library returns the list a stable sort returns.
\<close>

definition sorted_by_first :: "event list \<Rightarrow> exn + event list" where
  "sorted_by_first d =
     ebind (first_values d) (\<lambda>ks.
       if list_all is_Flt ks then Inr (sort_key (\<lambda>x. the_Flt (first_key x)) d)
       else if list_all is_Str ks then Inr (sort_key (\<lambda>x. the_Str (first_key x)) d)
       else Inl TypeError)"

definition load_data :: "ulog_data list \<Rightarrow> event list prog" where
  "load_data data_list =
     pbind (load_all data_list []) (\<lambda>d. lift (sorted_by_first d))"

section \<open>The simulation (lines 149 to 162)\<close>

fun for_update :: "event list \<Rightarrow> unit prog" where
  "for_update [] = pret ()"
| "for_update (d # ds) = pbind (algorithm_update d) (\<lambda>_. for_update ds)"

definition run_simulation :: "event list \<Rightarrow> unit prog" where
  "run_simulation ds =
     pbind algorithm_init (\<lambda>_.
     pbind (for_update ds) (\<lambda>_.
     algorithm_done))"

text \<open>
  The main block, from the decoded \<^verbatim>\<open>ulog.data_list\<close> of the log file on.
\<close>

definition main :: "ulog_data list \<Rightarrow> unit prog" where
  "main data_list =
     pbind (print_line [Str ''Loading data from the ulog file'']) (\<lambda>_.
     pbind (load_data data_list) (\<lambda>ds.
     pbind (print_line [Str ''Run simulation'']) (\<lambda>_.
     pbind (run_simulation ds) (\<lambda>_.
     print_line [Str ''Simulation completed'']))))"

section \<open>Notions used in the statements\<close>

text \<open>
  The two pairs of module-level lists are read together by \<^verbatim>\<open>plot_result\<close>: they
  are in lockstep when each time list is as long as its value list.
\<close>

definition lockstep :: "world \<Rightarrow> bool" where
  "lockstep w = (length (pressure_time w) = length (pressure_log w) \<and>
                 length (kill_sw_time w) = length (kill_sw_log w))"

text \<open>What a statement adds to the terminal and the plot window when run in \<open>w\<close>.\<close>

definition emitted_by :: "'a prog \<Rightarrow> world \<Rightarrow> out_item list" where
  "emitted_by m w = drop (length (emitted w)) (emitted (snd (m w)))"

text \<open>The pressure history and the kill-switch history.\<close>

definition histories :: "world \<Rightarrow> (pyval list \<times> pyval list) \<times> (pyval list \<times> pyval list)" where
  "histories w = ((pressure_time w, pressure_log w), (kill_sw_time w, kill_sw_log w))"

text \<open>
  An event whose timestamp is a float strictly between the two bounds; an event of the
  barometer kind that carries its pressure; an event of the kill-switch kind that
  carries its state; an event whose timestamp is a float.
\<close>

definition inside :: "world \<Rightarrow> event \<Rightarrow> bool" where
  "inside w e = (case map_of e ''timestamp'' of
                   Some (Flt t) \<Rightarrow> start_seconds w < t \<and> t < end_seconds w
                 | _ \<Rightarrow> False)"

definition pressure_event :: "event \<Rightarrow> bool" where
  "pressure_event e = (map_of e ''field'' = Some (Str ''vehicle_air_data'') \<and>
                       map_of e ''baro_pressure_pa'' \<noteq> None)"

definition kill_switch_event :: "event \<Rightarrow> bool" where
  "kill_switch_event e = (map_of e ''field'' = Some (Str ''manual_control_setpoint'') \<and>
                          map_of e ''aux1'' \<noteq> None)"

definition float_timestamp :: "event \<Rightarrow> bool" where
  "float_timestamp e = (case map_of e ''timestamp'' of Some (Flt t) \<Rightarrow> True | _ \<Rightarrow> False)"

text \<open>
  The sort as the specification words it: a stable sort keyed solely on the timestamp
  field. It is compared below with \<open>sorted_by_first\<close>, the sort the script performs.
\<close>

definition timestamp_of :: "event \<Rightarrow> real" where
  "timestamp_of x = (case map_of x ''timestamp'' of Some (Flt t) \<Rightarrow> t | _ \<Rightarrow> 0)"

definition sorted_by_timestamp :: "event list \<Rightarrow> event list" where
  "sorted_by_timestamp d = sort_key timestamp_of d"

text \<open>A dict whose first entry is a float stored under \<^verbatim>\<open>timestamp\<close>.\<close>

fun loaded :: "event \<Rightarrow> bool" where
  "loaded ((k, Flt t) # kvs) = (k = ''timestamp'')"
| "loaded kvs = False"





text \<open>Sample inputs: a barometer message, a kill-switch message, and single events.\<close>

definition air_batch :: "int list \<Rightarrow> real list \<Rightarrow> ulog_data" where
  "air_batch ts ps = \<lparr> name = ''vehicle_air_data'',
     field_data = [''timestamp'', ''baro_pressure_pa''],
     timestamp = ts, data = [''baro_pressure_pa'' \<mapsto> ps] \<rparr>"

definition setpoint_batch :: "int list \<Rightarrow> real list \<Rightarrow> ulog_data" where
  "setpoint_batch ts a1 = \<lparr> name = ''manual_control_setpoint'',
     field_data = [''timestamp'', ''aux1''],
     timestamp = ts, data = [''aux1'' \<mapsto> a1] \<rparr>"

definition pressure_at :: "real \<Rightarrow> real \<Rightarrow> event" where
  "pressure_at t p =
     [(''timestamp'', Flt t), (''field'', Str ''vehicle_air_data''), (''baro_pressure_pa'', Flt p)]"

definition kill_switch_at :: "real \<Rightarrow> real \<Rightarrow> event" where
  "kill_switch_at t a =
     [(''timestamp'', Flt t), (''field'', Str ''manual_control_setpoint''), (''aux1'', Flt a)]"

section \<open>Unfolding the loader on sample inputs\<close>

lemmas load_defs =
  load_data_def load_one_def air_data_block_def setpoint_block_def sensor_block_def
  pbind_def pret_def lift_def print_keys_def column_def ebind_def sorted_by_first_def
  air_record_def setpoint_record_def seconds_def first_key_def
  air_batch_def setpoint_batch_def pressure_at_def kill_switch_at_def

section \<open>The algorithm section: single calls\<close>

lemma in_window_Flt:
  "map_of e ''timestamp'' = Some (Flt t) \<Longrightarrow>
   in_window w e = Inr (start_seconds w < t \<and> t < end_seconds w)"
  by (simp add: in_window_def subscript_def ebind_def)

lemma update_outside:
  assumes "map_of e ''timestamp'' = Some (Flt t)" "\<not> (start_seconds w < t \<and> t < end_seconds w)"
  shows "algorithm_update e w = (Inr (), w)"
  using assms by (auto simp: algorithm_update_def in_window_Flt pbind_def pret_def)

lemma update_air:
  assumes "map_of e ''timestamp'' = Some (Flt t)" "start_seconds w < t" "t < end_seconds w"
    "map_of e ''field'' = Some (Str ''vehicle_air_data'')"
    "map_of e ''baro_pressure_pa'' = Some v"
  shows "algorithm_update e w =
    (Inr (), w\<lparr>pressure_time := pressure_time w @ [Flt t],
               pressure_log := pressure_log w @ [v],
               emitted := emitted w @ [Print [Flt t, Str ''pressure'', v]]\<rparr>)"
  using assms
  by (simp add: algorithm_update_def in_window_Flt pbind_def pret_def lift_def
      imu_block_def air_block_def kill_block_def subscript_def ebind_def print_line_def
      append_pressure_time_def append_pressure_log_def)

lemma update_kill_sw:
  assumes "map_of e ''timestamp'' = Some (Flt t)" "start_seconds w < t" "t < end_seconds w"
    "map_of e ''field'' = Some (Str ''manual_control_setpoint'')"
    "map_of e ''aux1'' = Some v"
  shows "algorithm_update e w =
    (Inr (), w\<lparr>kill_sw_time := kill_sw_time w @ [Flt t],
               kill_sw_log := kill_sw_log w @ [v],
               emitted := emitted w @ [Print [Flt t, Str ''kill switch'', v]]\<rparr>)"
  using assms
  by (simp add: algorithm_update_def in_window_Flt pbind_def pret_def lift_def
      imu_block_def air_block_def kill_block_def subscript_def ebind_def print_line_def
      append_kill_sw_time_def append_kill_sw_log_def)

lemma update_air_missing:
  assumes "map_of e ''timestamp'' = Some (Flt t)" "start_seconds w < t" "t < end_seconds w"
    "map_of e ''field'' = Some (Str ''vehicle_air_data'')"
    "map_of e ''baro_pressure_pa'' = None"
  shows "algorithm_update e w = (Inl (KeyError ''baro_pressure_pa''), w)"
  using assms
  by (simp add: algorithm_update_def in_window_Flt pbind_def pret_def lift_def
      imu_block_def air_block_def kill_block_def subscript_def ebind_def print_line_def)

lemma init_result:
  "algorithm_init w = (Inr (), w\<lparr>emitted := emitted w @ [Print [Str ''Algorithm init'']]\<rparr>)"
  by (simp add: algorithm_init_def print_line_def)

lemma done_result:
  "algorithm_done w = (Inr (), w\<lparr>emitted := emitted w @
     [Print [Str ''Algorithm done''],
      Plot_result (start_seconds w) (end_seconds w) (pressure_time w) (pressure_log w)
        (kill_sw_time w) (kill_sw_log w)]\<rparr>)"
  by (simp add: algorithm_done_def pbind_def print_line_def plot_result_def)

text \<open>
  C1. Window filtering. For an event with a float timestamp \<open>t\<close>, of the barometer kind
  with a pressure \<open>v\<close> or of the kill-switch kind with a state \<open>v\<close>, the update
  returns normally, and it appends \<open>t\<close> and \<open>v\<close> to the two lists of that kind if and
  only if \<open>start_seconds < t < end_seconds\<close>, both bounds strict; outside the window
  the update changes nothing at all.
\<close>

theorem window_filtering:
  assumes "map_of e ''timestamp'' = Some (Flt t)"
  shows "(map_of e ''field'' = Some (Str ''vehicle_air_data'') \<and>
          map_of e ''baro_pressure_pa'' = Some v \<longrightarrow>
            fst (algorithm_update e w) = Inr () \<and>
            ((pressure_time (snd (algorithm_update e w)) = pressure_time w @ [Flt t] \<and>
              pressure_log (snd (algorithm_update e w)) = pressure_log w @ [v])
             = (start_seconds w < t \<and> t < end_seconds w))) \<and>
         (map_of e ''field'' = Some (Str ''manual_control_setpoint'') \<and>
          map_of e ''aux1'' = Some v \<longrightarrow>
            fst (algorithm_update e w) = Inr () \<and>
            ((kill_sw_time (snd (algorithm_update e w)) = kill_sw_time w @ [Flt t] \<and>
              kill_sw_log (snd (algorithm_update e w)) = kill_sw_log w @ [v])
             = (start_seconds w < t \<and> t < end_seconds w))) \<and>
         (\<not> (start_seconds w < t \<and> t < end_seconds w) \<longrightarrow> algorithm_update e w = (Inr (), w))"
proof (cases "start_seconds w < t \<and> t < end_seconds w")
  case True
  then show ?thesis
    using assms update_air [of e t w v] update_kill_sw [of e t w v] by simp
next
  case False
  then show ?thesis
    using assms update_outside [of e t w] by simp
qed

text \<open>
  With the bounds 100 and 900 of the script, an event at 100.0 is left out and events at
  100.1 are recorded.
\<close>

theorem window_filtering_witness:
  "algorithm_update [(''timestamp'', Flt 100), (''field'', Str ''vehicle_air_data''),
       (''baro_pressure_pa'', Flt 1013.2)] module_init = (Inr (), module_init) \<and>
   pressure_time (snd (algorithm_update [(''timestamp'', Flt 100.1), (''field'', Str ''vehicle_air_data''),
       (''baro_pressure_pa'', Flt 1013.2)] module_init)) = [Flt 100.1] \<and>
   pressure_log (snd (algorithm_update [(''timestamp'', Flt 100.1), (''field'', Str ''vehicle_air_data''),
       (''baro_pressure_pa'', Flt 1013.2)] module_init)) = [Flt 1013.2] \<and>
   kill_sw_time (snd (algorithm_update [(''timestamp'', Flt 100.1), (''field'', Str ''manual_control_setpoint''),
       (''aux1'', Flt 1)] module_init)) = [Flt 100.1] \<and>
   kill_sw_log (snd (algorithm_update [(''timestamp'', Flt 100.1), (''field'', Str ''manual_control_setpoint''),
       (''aux1'', Flt 1)] module_init)) = [Flt 1]"
  using window_filtering [of "[(''timestamp'', Flt 100), (''field'', Str ''vehicle_air_data''),
       (''baro_pressure_pa'', Flt 1013.2)]" 100 "Flt 1013.2" module_init]
    window_filtering [of "[(''timestamp'', Flt 100.1), (''field'', Str ''vehicle_air_data''),
       (''baro_pressure_pa'', Flt 1013.2)]" "100.1" "Flt 1013.2" module_init]
    window_filtering [of "[(''timestamp'', Flt 100.1), (''field'', Str ''manual_control_setpoint''),
       (''aux1'', Flt 1)]" "100.1" "Flt 1" module_init]
  by (simp add: module_init_def)

text \<open>
  C2, as the script behaves. A barometer event inside the window that lacks the key
  \<^verbatim>\<open>baro_pressure_pa\<close> makes the update raise Python's \<open>KeyError\<close> for that key, while
  the arguments of the \<^verbatim>\<open>print\<close> of line 91 are evaluated: nothing has been printed
  and nothing has been appended to any list.
\<close>

theorem malformed_pressure_raises_key_error:
  assumes "map_of e ''timestamp'' = Some (Flt t)" "start_seconds w < t" "t < end_seconds w"
    "map_of e ''field'' = Some (Str ''vehicle_air_data'')"
    "map_of e ''baro_pressure_pa'' = None"
  shows "algorithm_update e w = (Inl (KeyError ''baro_pressure_pa''), w)"
  using assms by (rule update_air_missing)

theorem malformed_pressure_raises_key_error_witness:
  "algorithm_update [(''timestamp'', Flt 150), (''field'', Str ''vehicle_air_data'')] module_init
     = (Inl (KeyError ''baro_pressure_pa''), module_init)"
  using malformed_pressure_raises_key_error
    [of "[(''timestamp'', Flt 150), (''field'', Str ''vehicle_air_data'')]" 150 module_init]
  by (simp add: module_init_def)

text \<open>
  The exception is not the \<open>MalformedEventError\<close> of the specification, and it carries
  the missing key, not the kind and the timestamp.
\<close>

theorem malformed_pressure_counterexample:
  "fst (algorithm_update [(''timestamp'', Flt 150), (''field'', Str ''vehicle_air_data'')] module_init)
     = Inl (KeyError ''baro_pressure_pa'') \<and>
   fst (algorithm_update [(''timestamp'', Flt 150), (''field'', Str ''vehicle_air_data'')] module_init)
     \<noteq> Inl (MalformedEventError ''vehicle_air_data'' 150)"
  using update_air_missing
    [of "[(''timestamp'', Flt 150), (''field'', Str ''vehicle_air_data'')]" 150 module_init]
  by (simp add: module_init_def)

text \<open>
  C3, as the script behaves. There is no DONE state: every call of \<^verbatim>\<open>algorithm_done\<close>
  returns normally, leaves the bounds and both histories as they are, and emits the done
  line and the plot of the histories. So a second call is not a no-op: it returns
  normally, changes no history, and emits once more exactly what the first call emitted.
\<close>

theorem done_repeats_output:
  "fst (algorithm_done w) = Inr () \<and>
   histories (snd (algorithm_done w)) = histories w \<and>
   start_seconds (snd (algorithm_done w)) = start_seconds w \<and>
   end_seconds (snd (algorithm_done w)) = end_seconds w \<and>
   emitted_by algorithm_done w =
     [Print [Str ''Algorithm done''],
      Plot_result (start_seconds w) (end_seconds w) (pressure_time w) (pressure_log w)
        (kill_sw_time w) (kill_sw_log w)] \<and>
   fst (algorithm_done (snd (algorithm_done w))) = Inr () \<and>
   histories (snd (algorithm_done (snd (algorithm_done w)))) = histories w \<and>
   emitted_by algorithm_done (snd (algorithm_done w)) = emitted_by algorithm_done w \<and>
   emitted (snd (algorithm_done (snd (algorithm_done w)))) =
     emitted w @ emitted_by algorithm_done w @ emitted_by algorithm_done w"
  by (simp add: done_result histories_def emitted_by_def)

text \<open>
  After one call in the initial state of the module, a second call changes the state:
  it emits the done line and the plot again.
\<close>

theorem done_second_call_counterexample:
  "snd (algorithm_done (snd (algorithm_done module_init))) \<noteq> snd (algorithm_done module_init) \<and>
   emitted_by algorithm_done (snd (algorithm_done module_init)) =
     [Print [Str ''Algorithm done''], Plot_result 100 900 [] [] [] []]"
  by (simp add: done_result emitted_by_def module_init_def)

section \<open>The lists stay in lockstep\<close>

lemma imu_block_lists:
  "imu_block e w = (r, w') \<Longrightarrow> pressure_time w' = pressure_time w \<and> pressure_log w' = pressure_log w
    \<and> kill_sw_time w' = kill_sw_time w \<and> kill_sw_log w' = kill_sw_log w"
  by (auto simp: imu_block_def pbind_def lift_def pret_def print_line_def
      split: sum.splits if_splits prod.splits)

lemma air_block_lockstep: "lockstep w \<Longrightarrow> lockstep (snd (air_block e w))"
  by (auto simp: air_block_def pbind_def lift_def pret_def print_line_def lockstep_def
       ebind_def subscript_def append_pressure_time_def append_pressure_log_def
      split: sum.splits if_splits prod.splits option.splits)

lemma kill_block_lockstep: "lockstep w \<Longrightarrow> lockstep (snd (kill_block e w))"
  by (auto simp: kill_block_def pbind_def lift_def pret_def print_line_def lockstep_def
       ebind_def subscript_def append_kill_sw_time_def append_kill_sw_log_def
      split: sum.splits if_splits prod.splits option.splits)

lemma imu_block_lockstep: "lockstep w \<Longrightarrow> lockstep (snd (imu_block e w))"
  using imu_block_lists[of e w "fst (imu_block e w)" "snd (imu_block e w)"]
  by (simp add: lockstep_def)

lemma snd_pbind:
  "snd (pbind m f w) = (case fst (m w) of Inl x \<Rightarrow> snd (m w) | Inr a \<Rightarrow> snd (f a (snd (m w))))"
  by (simp add: pbind_def split: prod.splits sum.splits)

lemma update_lockstep: "lockstep w \<Longrightarrow> lockstep (snd (algorithm_update e w))"
  by (auto simp: algorithm_update_def snd_pbind pret_def
      intro!: imu_block_lockstep air_block_lockstep kill_block_lockstep
      split: sum.splits)

text \<open>
  C9. The lists are in lockstep when the module is loaded, and \<^verbatim>\<open>algorithm_init\<close>,
  \<^verbatim>\<open>algorithm_update\<close> on any event (also one that makes it raise) and
  \<^verbatim>\<open>algorithm_done\<close> keep them so.
\<close>

theorem lockstep_invariant:
  "lockstep module_init \<and>
   (lockstep w \<longrightarrow>
      lockstep (snd (algorithm_init w)) \<and>
      lockstep (snd (algorithm_update e w)) \<and>
      lockstep (snd (algorithm_done w)))"
proof -
  have "lockstep module_init"
    by (simp add: lockstep_def module_init_def)
  moreover have "lockstep (snd (algorithm_init w))" if "lockstep w"
    using that by (simp add: init_result lockstep_def)
  moreover have "lockstep (snd (algorithm_done w))" if "lockstep w"
    using that by (simp add: done_result lockstep_def)
  ultimately show ?thesis
    using update_lockstep by blast
qed

theorem lockstep_invariant_witness:
  "lockstep module_init \<and>
   lockstep (snd (algorithm_init module_init)) \<and>
   lockstep (snd (algorithm_update
      [(''timestamp'', Flt 150), (''field'', Str ''vehicle_air_data'')] module_init)) \<and>
   lockstep (snd (algorithm_update
      [(''timestamp'', Flt 150), (''field'', Str ''vehicle_air_data''),
       (''baro_pressure_pa'', Flt 1013.2)] module_init)) \<and>
   pressure_time (snd (algorithm_update
      [(''timestamp'', Flt 150), (''field'', Str ''vehicle_air_data''),
       (''baro_pressure_pa'', Flt 1013.2)] module_init)) = [Flt 150] \<and>
   lockstep (snd (algorithm_done module_init))"
  using lockstep_invariant [where e = "[(''timestamp'', Flt 150), (''field'', Str ''vehicle_air_data'')]"
      and w = module_init]
    lockstep_invariant [where e = "[(''timestamp'', Flt 150), (''field'', Str ''vehicle_air_data''),
       (''baro_pressure_pa'', Flt 1013.2)]" and w = module_init]
    update_air [of "[(''timestamp'', Flt 150), (''field'', Str ''vehicle_air_data''),
       (''baro_pressure_pa'', Flt 1013.2)]" 150 module_init "Flt 1013.2"]
  by (simp add: module_init_def)

section \<open>The simulation loop\<close>

lemma inside_D:
  "inside w e \<Longrightarrow> \<exists>t. map_of e ''timestamp'' = Some (Flt t) \<and> start_seconds w < t \<and> t < end_seconds w"
  by (auto simp: inside_def split: option.splits pyval.splits)

lemma float_timestamp_D: "float_timestamp e \<Longrightarrow> \<exists>t. map_of e ''timestamp'' = Some (Flt t)"
  by (auto simp: float_timestamp_def split: option.splits pyval.splits)

lemma inside_bounds:
  "start_seconds w' = start_seconds w \<Longrightarrow> end_seconds w' = end_seconds w \<Longrightarrow>
   inside w' e = inside w e"
  by (auto simp: inside_def split: option.splits pyval.splits)

lemma for_update_samples:
  assumes "\<forall>e\<in>set ds. inside w e \<and> (pressure_event e \<or> kill_switch_event e)"
  shows "fst (for_update ds w) = Inr () \<and>
    start_seconds (snd (for_update ds w)) = start_seconds w \<and>
    end_seconds (snd (for_update ds w)) = end_seconds w \<and>
    pressure_time (snd (for_update ds w)) =
      pressure_time w @ map (\<lambda>e. the (map_of e ''timestamp'')) (filter pressure_event ds) \<and>
    pressure_log (snd (for_update ds w)) =
      pressure_log w @ map (\<lambda>e. the (map_of e ''baro_pressure_pa'')) (filter pressure_event ds) \<and>
    kill_sw_time (snd (for_update ds w)) =
      kill_sw_time w @ map (\<lambda>e. the (map_of e ''timestamp'')) (filter kill_switch_event ds) \<and>
    kill_sw_log (snd (for_update ds w)) =
      kill_sw_log w @ map (\<lambda>e. the (map_of e ''aux1'')) (filter kill_switch_event ds)"
  using assms
proof (induction ds arbitrary: w)
  case Nil
  then show ?case by (simp add: pret_def)
next
  case (Cons e ds)
  from Cons.prems obtain t where
    t: "map_of e ''timestamp'' = Some (Flt t)" "start_seconds w < t" "t < end_seconds w"
    by (auto dest: inside_D)
  from Cons.prems have kind: "pressure_event e \<or> kill_switch_event e" by simp
  then show ?case
  proof
    assume p: "pressure_event e"
    then obtain v where v: "map_of e ''baro_pressure_pa'' = Some v"
      and f: "map_of e ''field'' = Some (Str ''vehicle_air_data'')"
      by (auto simp: pressure_event_def)
    from f have nk: "\<not> kill_switch_event e" by (simp add: kill_switch_event_def)
    let ?w1 = "w\<lparr>pressure_time := pressure_time w @ [Flt t],
                 pressure_log := pressure_log w @ [v],
                 emitted := emitted w @ [Print [Flt t, Str ''pressure'', v]]\<rparr>"
    have step: "algorithm_update e w = (Inr (), ?w1)"
      using t f v by (rule update_air)
    have "\<forall>e\<in>set ds. inside ?w1 e \<and> (pressure_event e \<or> kill_switch_event e)"
      using Cons.prems by (simp add: inside_bounds [of ?w1 w])
    from Cons.IH [OF this] show ?thesis
      using step p nk t v by (simp add: pbind_def)
  next
    assume k: "kill_switch_event e"
    then obtain v where v: "map_of e ''aux1'' = Some v"
      and f: "map_of e ''field'' = Some (Str ''manual_control_setpoint'')"
      by (auto simp: kill_switch_event_def)
    from f have np: "\<not> pressure_event e" by (simp add: pressure_event_def)
    let ?w1 = "w\<lparr>kill_sw_time := kill_sw_time w @ [Flt t],
                 kill_sw_log := kill_sw_log w @ [v],
                 emitted := emitted w @ [Print [Flt t, Str ''kill switch'', v]]\<rparr>"
    have step: "algorithm_update e w = (Inr (), ?w1)"
      using t f v by (rule update_kill_sw)
    have "\<forall>e\<in>set ds. inside ?w1 e \<and> (pressure_event e \<or> kill_switch_event e)"
      using Cons.prems by (simp add: inside_bounds [of ?w1 w])
    from Cons.IH [OF this] show ?thesis
      using step k np t v by (simp add: pbind_def)
  qed
qed

lemma for_update_ignored:
  assumes "end_seconds w \<le> start_seconds w" "\<forall>e\<in>set ds. float_timestamp e"
  shows "for_update ds w = (Inr (), w)"
  using assms(2)
proof (induction ds)
  case Nil
  then show ?case by (simp add: pret_def)
next
  case (Cons e ds)
  then obtain t where "map_of e ''timestamp'' = Some (Flt t)"
    by (auto dest: float_timestamp_D)
  then have "algorithm_update e w = (Inr (), w)"
    using assms(1) by (intro update_outside) auto
  then show ?case
    using Cons by (simp add: pbind_def)
qed

lemma run_simulation_unfold:
  "run_simulation ds w =
     (case for_update ds (w\<lparr>emitted := emitted w @ [Print [Str ''Algorithm init'']]\<rparr>) of
        (Inl x, w') \<Rightarrow> (Inl x, w')
      | (Inr u, w') \<Rightarrow> algorithm_done w')"
  by (simp add: run_simulation_def pbind_def init_result)

text \<open>
  C6. Round trip. When every event fed to \<^verbatim>\<open>run_simulation\<close> lies inside the window
  and is a barometer event with its pressure or a kill-switch event with its state, the
  run returns normally, the pressure lists grow by exactly the timestamps and pressures
  of the barometer events, in feed order, and the kill-switch lists by exactly the
  timestamps and states of the kill-switch events: N and M new entries, none dropped,
  none duplicated.
\<close>

theorem round_trip:
  assumes "\<forall>e\<in>set ds. inside w e \<and> (pressure_event e \<or> kill_switch_event e)"
  shows "fst (run_simulation ds w) = Inr () \<and>
    pressure_time (snd (run_simulation ds w)) =
      pressure_time w @ map (\<lambda>e. the (map_of e ''timestamp'')) (filter pressure_event ds) \<and>
    pressure_log (snd (run_simulation ds w)) =
      pressure_log w @ map (\<lambda>e. the (map_of e ''baro_pressure_pa'')) (filter pressure_event ds) \<and>
    kill_sw_time (snd (run_simulation ds w)) =
      kill_sw_time w @ map (\<lambda>e. the (map_of e ''timestamp'')) (filter kill_switch_event ds) \<and>
    kill_sw_log (snd (run_simulation ds w)) =
      kill_sw_log w @ map (\<lambda>e. the (map_of e ''aux1'')) (filter kill_switch_event ds) \<and>
    length (pressure_time (snd (run_simulation ds w))) =
      length (pressure_time w) + length (filter pressure_event ds) \<and>
    length (kill_sw_time (snd (run_simulation ds w))) =
      length (kill_sw_time w) + length (filter kill_switch_event ds)"
proof -
  let ?w0 = "w\<lparr>emitted := emitted w @ [Print [Str ''Algorithm init'']]\<rparr>"
  have "\<forall>e\<in>set ds. inside ?w0 e \<and> (pressure_event e \<or> kill_switch_event e)"
    using assms by (simp add: inside_bounds [of ?w0 w])
  from for_update_samples [OF this] obtain w1 where
    "for_update ds ?w0 = (Inr (), w1)"
    "pressure_time w1 =
      pressure_time w @ map (\<lambda>e. the (map_of e ''timestamp'')) (filter pressure_event ds)"
    "pressure_log w1 =
      pressure_log w @ map (\<lambda>e. the (map_of e ''baro_pressure_pa'')) (filter pressure_event ds)"
    "kill_sw_time w1 =
      kill_sw_time w @ map (\<lambda>e. the (map_of e ''timestamp'')) (filter kill_switch_event ds)"
    "kill_sw_log w1 =
      kill_sw_log w @ map (\<lambda>e. the (map_of e ''aux1'')) (filter kill_switch_event ds)"
    by (cases "for_update ds ?w0") auto
  then show ?thesis
    by (simp add: run_simulation_unfold done_result)
qed

text \<open>
  The example of the specification: three pressure readings at 150, 160 and 170 seconds,
  with a kill-switch sample between them.
\<close>

theorem round_trip_witness:
  "fst (run_simulation [pressure_at 150 1013.2, kill_switch_at 155 1, pressure_at 160 1013.0,
          pressure_at 170 1012.8] module_init) = Inr () \<and>
   zip (pressure_time (snd (run_simulation [pressure_at 150 1013.2, kill_switch_at 155 1,
          pressure_at 160 1013.0, pressure_at 170 1012.8] module_init)))
       (pressure_log (snd (run_simulation [pressure_at 150 1013.2, kill_switch_at 155 1,
          pressure_at 160 1013.0, pressure_at 170 1012.8] module_init))) =
     [(Flt 150, Flt 1013.2), (Flt 160, Flt 1013.0), (Flt 170, Flt 1012.8)] \<and>
   zip (kill_sw_time (snd (run_simulation [pressure_at 150 1013.2, kill_switch_at 155 1,
          pressure_at 160 1013.0, pressure_at 170 1012.8] module_init)))
       (kill_sw_log (snd (run_simulation [pressure_at 150 1013.2, kill_switch_at 155 1,
          pressure_at 160 1013.0, pressure_at 170 1012.8] module_init))) =
     [(Flt 155, Flt 1)]"
  using round_trip [of "[pressure_at 150 1013.2, kill_switch_at 155 1, pressure_at 160 1013.0,
          pressure_at 170 1012.8]" module_init]
  by (simp add: inside_def pressure_event_def kill_switch_event_def pressure_at_def
      kill_switch_at_def module_init_def)

text \<open>
  C7, as the script behaves. Nothing checks the bounds. With
  \<open>end_seconds \<le> start_seconds\<close> the run is carried out: every event with a float
  timestamp is ignored, the run returns normally, both histories are unchanged, and the
  run emits the init line, the done line and the plot.
\<close>

theorem invalid_window_runs:
  assumes "end_seconds w \<le> start_seconds w" "\<forall>e\<in>set ds. float_timestamp e"
  shows "fst (run_simulation ds w) = Inr () \<and>
         histories (snd (run_simulation ds w)) = histories w \<and>
         emitted_by (run_simulation ds) w =
           [Print [Str ''Algorithm init''], Print [Str ''Algorithm done''],
            Plot_result (start_seconds w) (end_seconds w) (pressure_time w) (pressure_log w)
              (kill_sw_time w) (kill_sw_log w)]"
proof -
  let ?w0 = "w\<lparr>emitted := emitted w @ [Print [Str ''Algorithm init'']]\<rparr>"
  have "for_update ds ?w0 = (Inr (), ?w0)"
    using assms by (intro for_update_ignored) simp_all
  then show ?thesis
    by (simp add: run_simulation_unfold done_result histories_def emitted_by_def)
qed

theorem invalid_window_runs_witness:
  "fst (run_simulation [pressure_at 150 1013.2]
          (module_init\<lparr>start_seconds := 900, end_seconds := 100\<rparr>)) = Inr () \<and>
   histories (snd (run_simulation [pressure_at 150 1013.2]
          (module_init\<lparr>start_seconds := 900, end_seconds := 100\<rparr>))) = (([], []), ([], []))"
  using invalid_window_runs [of "module_init\<lparr>start_seconds := 900, end_seconds := 100\<rparr>"
          "[pressure_at 150 1013.2]"]
  by (simp add: float_timestamp_def pressure_at_def module_init_def histories_def)

text \<open>
  The whole program on a log with one barometer sample, with the two bounds exchanged:
  it runs to its end and raises nothing, so no \<open>ConfigError\<close>.
\<close>

theorem config_error_counterexample:
  "fst (main [air_batch [150000000] [1013.2]]
          (module_init\<lparr>start_seconds := 900, end_seconds := 100\<rparr>)) = Inr () \<and>
   fst (main [air_batch [150000000] [1013.2]]
          (module_init\<lparr>start_seconds := 900, end_seconds := 100\<rparr>)) \<noteq> Inl ConfigError"
  by (simp add: main_def load_defs print_line_def run_simulation_def algorithm_init_def
      algorithm_update_def in_window_def subscript_def done_result module_init_def)

section \<open>Loading and merging\<close>

lemma sensor_block_rows:
  assumes "fst (sensor_block x d w) = Inr d'"
  shows "\<exists>gx gy gz ax ay az.
     data x ''gyro_rad[0]'' = Some gx \<and> data x ''gyro_rad[1]'' = Some gy \<and>
     data x ''gyro_rad[2]'' = Some gz \<and> data x ''accelerometer_m_s2[0]'' = Some ax \<and>
     data x ''accelerometer_m_s2[1]'' = Some ay \<and> data x ''accelerometer_m_s2[2]'' = Some az \<and>
     d' = d @ map (sensor_record (name x))
       (zip (timestamp x) (zip gx (zip gy (zip gz (zip ax (zip ay az))))))"
  using assms
  by (auto simp: sensor_block_def pbind_def print_keys_def lift_def column_def pret_def
      split: option.splits)

lemma air_data_block_rows:
  assumes "fst (air_data_block x d w) = Inr d'"
  shows "\<exists>ps. data x ''baro_pressure_pa'' = Some ps \<and>
     d' = d @ map (air_record (name x)) (zip (timestamp x) ps)"
  using assms
  by (auto simp: air_data_block_def pbind_def print_keys_def lift_def column_def pret_def
      split: option.splits)

lemma setpoint_block_rows:
  assumes "fst (setpoint_block x d w) = Inr d'"
  shows "\<exists>a1. data x ''aux1'' = Some a1 \<and>
     d' = d @ map (setpoint_record (name x)) (zip (timestamp x) a1)"
  using assms
  by (auto simp: setpoint_block_def pbind_def print_keys_def lift_def column_def pret_def
      split: option.splits)

lemma load_one_cases:
  assumes "fst (load_one x d w) = Inr d'"
  shows "(name x = ''sensor_combined'' \<and> fst (sensor_block x d w) = Inr d') \<or>
         (name x = ''vehicle_air_data'' \<and> fst (air_data_block x d w) = Inr d') \<or>
         (name x = ''manual_control_setpoint'' \<and> fst (setpoint_block x d w) = Inr d') \<or>
         (name x \<noteq> ''sensor_combined'' \<and> name x \<noteq> ''vehicle_air_data'' \<and>
          name x \<noteq> ''manual_control_setpoint'' \<and> d' = d)"
  using assms
  by (auto simp: load_one_def pbind_def pret_def split: if_splits prod.splits sum.splits)

lemma loaded_sensor_record: "loaded (sensor_record nm r)"
  by (cases r) (simp add: sensor_record_def)

lemma loaded_air_record: "loaded (air_record nm r)"
  by (cases r) (simp add: air_record_def)

lemma loaded_setpoint_record: "loaded (setpoint_record nm r)"
  by (cases r) (simp add: setpoint_record_def)

lemma load_one_loaded:
  assumes "fst (load_one x d w) = Inr d'" "\<forall>e\<in>set d. loaded e"
  shows "\<forall>e\<in>set d'. loaded e"
  using load_one_cases [OF assms(1)] assms(2)
  by (auto dest!: sensor_block_rows air_data_block_rows setpoint_block_rows
      simp: loaded_sensor_record loaded_air_record loaded_setpoint_record)

lemma fst_pbind_Inr:
  "fst (pbind m f w) = Inr b \<Longrightarrow> \<exists>a w'. m w = (Inr a, w') \<and> fst (f a w') = Inr b"
  by (auto simp: pbind_def split: prod.splits sum.splits)

lemma load_all_loaded:
  "fst (load_all xs d w) = Inr d' \<Longrightarrow> \<forall>e\<in>set d. loaded e \<Longrightarrow> \<forall>e\<in>set d'. loaded e"
proof (induction xs arbitrary: d w)
  case Nil
  then show ?case by (simp add: pret_def)
next
  case (Cons x xs)
  from Cons.prems(1) obtain d1 w1 where
    one: "load_one x d w = (Inr d1, w1)" and rest: "fst (load_all xs d1 w1) = Inr d'"
    by (auto dest: fst_pbind_Inr)
  from one have "fst (load_one x d w) = Inr d1" by simp
  then have "\<forall>e\<in>set d1. loaded e"
    using Cons.prems(2) by (rule load_one_loaded)
  with rest show ?case by (rule Cons.IH)
qed

lemma loaded_map_of: "loaded x \<Longrightarrow> map_of x ''timestamp'' = Some (Flt (timestamp_of x))"
  by (induction x rule: loaded.induct) (simp_all add: timestamp_of_def)

lemma loaded_subscript: "loaded x \<Longrightarrow> subscript x ''timestamp'' = Inr (Flt (timestamp_of x))"
  by (simp add: subscript_def loaded_map_of)

lemma loaded_first_value: "loaded x \<Longrightarrow> first_value x = Inr (Flt (timestamp_of x))"
  by (induction x rule: loaded.induct) (simp_all add: timestamp_of_def)

lemma loaded_first_key: "loaded x \<Longrightarrow> first_key x = Flt (timestamp_of x)"
  by (induction x rule: loaded.induct) (simp_all add: timestamp_of_def first_key_def)

lemma first_values_loaded:
  "\<forall>x\<in>set d. loaded x \<Longrightarrow> first_values d = Inr (map (\<lambda>x. Flt (timestamp_of x)) d)"
  by (induction d) (simp_all add: ebind_def loaded_first_value)

lemma sort_key_cong_set:
  "(\<And>x. x \<in> set xs \<Longrightarrow> f x = g x) \<Longrightarrow> sort_key f xs = sort_key g xs"
proof (induction xs)
  case Nil
  then show ?case by simp
next
  case (Cons a xs)
  have ins: "insort_key f a ys = insort_key g a ys" if "set ys \<subseteq> set (a # xs)" for ys
    using that Cons.prems by (induction ys) auto
  have "sort_key f xs = sort_key g xs"
    using Cons by simp
  then show ?case
    using ins [of "sort_key g xs"] by auto
qed

lemma sorted_by_first_loaded:
  assumes "\<forall>x\<in>set d. loaded x"
  shows "sorted_by_first d = Inr (sorted_by_timestamp d)"
proof -
  have "sort_key (\<lambda>x. the_Flt (first_key x)) d = sort_key timestamp_of d"
    using assms by (intro sort_key_cong_set) (simp add: loaded_first_key)
  then show ?thesis
    using assms
    by (simp add: sorted_by_first_def first_values_loaded ebind_def list_all_iff
        sorted_by_timestamp_def)
qed

lemma load_data_result:
  assumes "fst (load_all data_list [] w) = Inr d"
  shows "fst (load_data data_list w) = Inr (sorted_by_timestamp d) \<and> (\<forall>x\<in>set d. loaded x)"
proof -
  have l: "\<forall>x\<in>set d. loaded x"
    using load_all_loaded [OF assms] by simp
  then show ?thesis
    using assms sorted_by_first_loaded [OF l]
    by (auto simp: load_data_def pbind_def lift_def split: prod.splits sum.splits)
qed

lemma load_data_Inr:
  assumes "fst (load_data data_list w) = Inr evs"
  shows "\<exists>d. fst (load_all data_list [] w) = Inr d \<and> evs = sorted_by_timestamp d \<and>
             (\<forall>x\<in>set d. loaded x)"
proof -
  from assms obtain d where "fst (load_all data_list [] w) = Inr d"
    by (auto simp: load_data_def dest!: fst_pbind_Inr)
  then show ?thesis
    using load_data_result [of data_list w d] assms by auto
qed

lemma loaded_timestamp_eq:
  "loaded x \<Longrightarrow> (map_of x ''timestamp'' = Some (Flt t)) = (timestamp_of x = t)"
  by (auto simp: loaded_map_of)




lemma example_load_all:
  "fst (load_all [air_batch [160000000, 150000000] [1013.0, 1013.2],
                  setpoint_batch [155000000] [1]] [] module_init) =
   Inr [pressure_at 160 1013.0, pressure_at 150 1013.2, kill_switch_at 155 1]"
  by (simp add: load_defs)

lemma example_load_data:
  "fst (load_data [air_batch [160000000, 150000000] [1013.0, 1013.2],
                  setpoint_batch [155000000] [1]] module_init) =
   Inr [pressure_at 150 1013.2, kill_switch_at 155 1, pressure_at 160 1013.0]"
  by (simp add: load_defs)

lemma example_tie:
  "fst (load_all [air_batch [50000000] [1013.0], setpoint_batch [50000000] [1]] []
          module_init) =
   Inr [pressure_at 50 1013.0, kill_switch_at 50 1]"
  by (simp add: load_defs)












text \<open>
  C10. In every record dict the loop collects, the value inserted first is the value
  stored under \<^verbatim>\<open>timestamp\<close>; so the sort by the first value is the stable sort keyed
  on the timestamp field, and that is what \<^verbatim>\<open>load_data\<close> returns.
\<close>

theorem first_value_is_timestamp:
  assumes "fst (load_all data_list [] w) = Inr d"
  shows "(\<forall>x\<in>set d. first_value x = subscript x ''timestamp'') \<and>
         sorted_by_first d = Inr (sorted_by_timestamp d) \<and>
         fst (load_data data_list w) = Inr (sorted_by_timestamp d)"
proof -
  from load_data_result [OF assms] have
    r: "fst (load_data data_list w) = Inr (sorted_by_timestamp d)" and l: "\<forall>x\<in>set d. loaded x"
    by simp_all
  from l have "\<forall>x\<in>set d. first_value x = subscript x ''timestamp''"
    by (simp add: loaded_first_value loaded_subscript)
  then show ?thesis
    using r sorted_by_first_loaded [OF l] by simp
qed

theorem first_value_is_timestamp_witness:
  "fst (load_all [air_batch [160000000, 150000000] [1013.0, 1013.2],
                  setpoint_batch [155000000] [1]] [] module_init) =
     Inr [pressure_at 160 1013.0, pressure_at 150 1013.2, kill_switch_at 155 1] \<and>
   first_value (pressure_at 160 1013.0) = subscript (pressure_at 160 1013.0) ''timestamp'' \<and>
   first_value (kill_switch_at 155 1) = subscript (kill_switch_at 155 1) ''timestamp'' \<and>
   sorted_by_first [pressure_at 160 1013.0, pressure_at 150 1013.2, kill_switch_at 155 1] =
     Inr (sorted_by_timestamp
       [pressure_at 160 1013.0, pressure_at 150 1013.2, kill_switch_at 155 1])"
  using first_value_is_timestamp [OF example_load_all] example_load_all by simp

text \<open>
  C4. The stream \<^verbatim>\<open>load_data\<close> returns is non-decreasing in timestamp: any two
  neighbours carry float timestamps \<open>a\<close> and \<open>b\<close> with \<open>a \<le> b\<close>.
\<close>

theorem merged_stream_nondecreasing:
  assumes "fst (load_data data_list w) = Inr stream"
  shows "\<forall>i. Suc i < length stream \<longrightarrow>
           (\<exists>a b. map_of (stream ! i) ''timestamp'' = Some (Flt a) \<and>
                  map_of (stream ! Suc i) ''timestamp'' = Some (Flt b) \<and> a \<le> b)"
proof (intro allI impI)
  fix i
  assume i: "Suc i < length stream"
  from load_data_Inr [OF assms] obtain d where
    d: "stream = sorted_by_timestamp d" "\<forall>x\<in>set d. loaded x"
    by blast
  have "sorted (map timestamp_of stream)"
    by (simp add: d(1) sorted_by_timestamp_def)
  then have le: "timestamp_of (stream ! i) \<le> timestamp_of (stream ! Suc i)"
    using i by (simp add: sorted_iff_nth_Suc)
  have "\<forall>x\<in>set stream. loaded x"
    using d by (simp add: sorted_by_timestamp_def)
  then have "loaded (stream ! i)" "loaded (stream ! Suc i)"
    using i by simp_all
  then show "\<exists>a b. map_of (stream ! i) ''timestamp'' = Some (Flt a) \<and>
                  map_of (stream ! Suc i) ''timestamp'' = Some (Flt b) \<and> a \<le> b"
    using le by (blast dest: loaded_map_of)
qed

theorem merged_stream_nondecreasing_witness:
  "fst (load_data [air_batch [160000000, 150000000] [1013.0, 1013.2],
                  setpoint_batch [155000000] [1]] module_init) =
     Inr [pressure_at 150 1013.2, kill_switch_at 155 1, pressure_at 160 1013.0] \<and>
   (\<exists>a b. map_of ([pressure_at 150 1013.2, kill_switch_at 155 1, pressure_at 160 1013.0] ! 0)
            ''timestamp'' = Some (Flt a) \<and>
          map_of ([pressure_at 150 1013.2, kill_switch_at 155 1, pressure_at 160 1013.0] ! Suc 0)
            ''timestamp'' = Some (Flt b) \<and> a \<le> b) \<and>
   (\<exists>a b. map_of ([pressure_at 150 1013.2, kill_switch_at 155 1, pressure_at 160 1013.0] ! 1)
            ''timestamp'' = Some (Flt a) \<and>
          map_of ([pressure_at 150 1013.2, kill_switch_at 155 1, pressure_at 160 1013.0] ! Suc 1)
            ''timestamp'' = Some (Flt b) \<and> a \<le> b)"
proof -
  note nd = merged_stream_nondecreasing [OF example_load_data, rule_format]
  from nd [of 0] nd [of 1] example_load_data show ?thesis
    by simp
qed

text \<open>
  C5. The merge is stable. Whenever the loop has collected the list \<open>d\<close>,
  \<^verbatim>\<open>load_data\<close> returns a stream in which, for every timestamp \<open>t\<close>, the events
  stamped \<open>t\<close> are the events of \<open>d\<close> stamped \<open>t\<close>, in the order they have in \<open>d\<close>.
\<close>

theorem merge_stable:
  assumes "fst (load_all data_list [] w) = Inr d"
  shows "\<exists>stream. fst (load_data data_list w) = Inr stream \<and>
           (\<forall>t. filter (\<lambda>x. map_of x ''timestamp'' = Some (Flt t)) stream =
                filter (\<lambda>x. map_of x ''timestamp'' = Some (Flt t)) d)"
proof -
  from load_data_result [OF assms] have
    r: "fst (load_data data_list w) = Inr (sorted_by_timestamp d)" and l: "\<forall>x\<in>set d. loaded x"
    by simp_all
  have "filter (\<lambda>x. map_of x ''timestamp'' = Some (Flt t)) (sorted_by_timestamp d) =
        filter (\<lambda>x. map_of x ''timestamp'' = Some (Flt t)) d" for t
  proof -
    have "filter (\<lambda>x. map_of x ''timestamp'' = Some (Flt t)) (sorted_by_timestamp d) =
          filter (\<lambda>x. timestamp_of x = t) (sorted_by_timestamp d)"
      using l by (intro filter_cong) (simp_all add: sorted_by_timestamp_def loaded_timestamp_eq)
    also have "\<dots> = filter (\<lambda>x. timestamp_of x = t) d"
      by (simp add: sorted_by_timestamp_def sort_key_stable)
    also have "\<dots> = filter (\<lambda>x. map_of x ''timestamp'' = Some (Flt t)) d"
      using l by (intro filter_cong) (simp_all add: loaded_timestamp_eq)
    finally show ?thesis .
  qed
  with r show ?thesis by blast
qed

text \<open>
  The example of the specification: a pressure event and a kill-switch event, both at
  50.0 seconds, come out in the order they went in.
\<close>

theorem merge_stable_witness:
  "fst (load_all [air_batch [50000000] [1013.0], setpoint_batch [50000000] [1]] []
          module_init) = Inr [pressure_at 50 1013.0, kill_switch_at 50 1] \<and>
   (\<exists>stream.
      fst (load_data [air_batch [50000000] [1013.0], setpoint_batch [50000000] [1]]
             module_init) = Inr stream \<and>
      filter (\<lambda>x. map_of x ''timestamp'' = Some (Flt 50)) stream =
        [pressure_at 50 1013.0, kill_switch_at 50 1])"
proof -
  from merge_stable [OF example_tie] obtain stream where
    s: "fst (load_data [air_batch [50000000] [1013.0], setpoint_batch [50000000] [1]]
              module_init) = Inr stream"
    and f: "\<forall>t. filter (\<lambda>x. map_of x ''timestamp'' = Some (Flt t)) stream =
                filter (\<lambda>x. map_of x ''timestamp'' = Some (Flt t))
                  [pressure_at 50 1013.0, kill_switch_at 50 1]"
    by blast
  from f have "filter (\<lambda>x. map_of x ''timestamp'' = Some (Flt 50)) stream =
      [pressure_at 50 1013.0, kill_switch_at 50 1]"
    by (simp add: pressure_at_def kill_switch_at_def)
  with s example_tie show ?thesis by blast
qed

end
